theory Spec2Isabelle
  imports Main "HOL-Library.Word"
begin

section \<open>Errors and the cluster map\<close>

text \<open>
  Go's \<open>error\<close> values, by the kinds the code tells apart: \<open>cos.IsEOF\<close>,
  \<open>cmn.IsObjNotExist\<close>, the type switch on \<open>*cmn.ErrBucketAlreadyExists\<close>. A nil
  error is \<open>None\<close> of \<open>error option\<close>.
\<close>

datatype error =
    ErrEOF
  | ErrObjNotExist
  | ErrBckNotFound
  | ErrAmbiguousProvider
  | ErrBucketAlreadyExists
  | ErrForbidden
  | ErrTgtInMaint
  | ErrNoTargets
  | ErrS3Req
  | ErrS3Obj
  | ErrOther string

definition IsEOF :: "error \<Rightarrow> bool" where
  "IsEOF e = (e = ErrEOF)"

definition IsObjNotExist :: "error \<Rightarrow> bool" where
  "IsObjNotExist e = (e = ErrObjNotExist)"

type_synonym int32 = "32 word"

text \<open>
  A node of the cluster map: its identity and its liveness flag (set when the node is in
  maintenance or being decommissioned). \<open>Tmap\<close> is Go's \<open>map[string]*Snode\<close>; the
  list fixes one iteration order of it.
\<close>

record Snode =
  sid :: string
  maint :: bool

record Smap =
  Tmap :: "Snode list"

text \<open>
  Modelled from the spec: \<open>Smap.CountActiveTs\<close> (package meta, not among the sources)
  counts the targets of the map whose liveness flag is up.
\<close>

definition CountActiveTs :: "Smap \<Rightarrow> nat" where
  "CountActiveTs smap = length (filter (\<lambda>t. \<not> maint t) (Tmap smap))"

text \<open>
  Modelled from the spec: \<open>cluster.InMaintOrDecomm\<close> (not among the sources) is an
  error exactly when the given node is in maintenance or decommissioned.
\<close>

definition InMaintOrDecomm :: "Smap \<Rightarrow> Snode \<Rightarrow> error option" where
  "InMaintOrDecomm smap tsi = (if maint tsi then Some ErrTgtInMaint else None)"

section \<open>Transport: object headers and readers\<close>

text \<open>
  \<open>transport.ObjHdr\<close> with the fields the handlers read. \<open>opcodeDone\<close> (multi-object
  jobs) is declared outside the sources; \<open>OpcTxnDone\<close> (bucket jobs) is 27182.
  Modelled from the spec: both are the one termination opcode \<open>OpcTxnDone\<close>.
\<close>

record ObjHdr =
  Bck :: string
  ObjName :: string
  Opaque :: string
  Opcode :: int

definition OpcTxnDone :: int where
  "OpcTxnDone = 27182"

definition opcodeDone :: int where
  "opcodeDone = 27182"

text \<open>
  An \<open>io.Reader\<close> handed to a receive handler: the bytes not yet read and whether its
  buffer went back to the slab allocator. A nil reader is \<open>None\<close>.
\<close>

record Reader =
  unread :: nat
  freed :: bool

text \<open>
  Modelled from the spec: \<open>transport.DrainAndFreeReader\<close> (not among the sources)
  reads the reader to its end and frees it; a nil reader is left alone.
\<close>

definition DrainAndFreeReader :: "Reader option \<Rightarrow> Reader option" where
  "DrainAndFreeReader rd =
     (case rd of None \<Rightarrow> None | Some x \<Rightarrow> Some (x\<lparr>unread := 0, freed := True\<rparr>))"

definition drained :: "Reader option \<Rightarrow> bool" where
  "drained rd = (case rd of None \<Rightarrow> True | Some x \<Rightarrow> unread x = 0 \<and> freed x)"

text \<open>
  What the target's blob store answers: \<open>lom.InitBck\<close> on the header's bucket,
  \<open>PutObject\<close>, which reads from the reader and may fail, and \<open>CopyObject\<close> of a
  source name to a destination name (with the dry-run and sync-remote flags).
\<close>

record Target =
  InitBck :: "string \<Rightarrow> error option"
  PutObject :: "ObjHdr \<Rightarrow> Reader option \<Rightarrow> error option \<times> Reader option"
  CopyObject :: "string \<Rightarrow> string \<Rightarrow> bool \<Rightarrow> bool \<Rightarrow> error option"

section \<open>Multi-object transform-copy (XactTCObjs)\<close>

record TCObjsMsg =
  TxnUUID :: string
  IsList :: bool
  Prepend :: string
  DryRun :: bool
  ContinueOnError :: bool

record tcowi =
  msg :: TCObjsMsg
  refc :: int32

text \<open>
  The base xaction both jobs embed: the error sink (\<open>AddErr\<close>, \<open>Err\<close>, \<open>ErrCnt\<close>), the
  abort flag, the count of operations in flight and the finished flag.
\<close>

record Base =
  errs :: "error list"
  aborted :: bool
  npending :: int
  finished :: bool

definition AddErr :: "error \<Rightarrow> 'a Base_scheme \<Rightarrow> 'a Base_scheme" where
  "AddErr e r = r\<lparr>errs := errs r @ [e]\<rparr>"

definition Abort :: "error \<Rightarrow> 'a Base_scheme \<Rightarrow> 'a Base_scheme" where
  "Abort e r = (if aborted r then r else (AddErr e r)\<lparr>aborted := True\<rparr>)"

definition Err :: "'a Base_scheme \<Rightarrow> error option" where
  "Err r = (case errs r of [] \<Rightarrow> None | e # _ \<Rightarrow> Some e)"

definition ErrCnt :: "'a Base_scheme \<Rightarrow> int" where
  "ErrCnt r = int (length (errs r))"

definition JoinErr :: "'a Base_scheme \<Rightarrow> error option" where
  "JoinErr r = Err r"

definition IncPending :: "'a Base_scheme \<Rightarrow> 'a Base_scheme" where
  "IncPending r = r\<lparr>npending := npending r + 1\<rparr>"

definition DecPending :: "'a Base_scheme \<Rightarrow> 'a Base_scheme" where
  "DecPending r = r\<lparr>npending := npending r - 1\<rparr>"

text \<open>
  The multi-object job: the pending map with its work-item count, the transaction ids
  whose \<open>done\<close> has been broadcast, whether the receive handler is registered and the
  data mover open, and the same-name-remote flag.
\<close>

record XactTCObjs = Base +
  pending_m :: "string \<rightharpoonup> tcowi"
  wiCnt :: int32
  termSent :: "string list"
  rxRegistered :: bool
  dmOpen :: bool
  syncRemote :: bool

definition sendTerm :: "string \<Rightarrow> XactTCObjs \<Rightarrow> XactTCObjs" where
  "sendTerm uuid r = r\<lparr>termSent := termSent r @ [uuid]\<rparr>"

definition Begin :: "TCObjsMsg \<Rightarrow> XactTCObjs \<Rightarrow> XactTCObjs" where
  "Begin m r =
     r\<lparr>pending_m := (pending_m r)(TxnUUID m \<mapsto> \<lparr>msg = m, refc = 0\<rparr>),
       wiCnt := wiCnt r + 1\<rparr>"

text \<open>
  One message taken from the work channel in \<open>Run\<close>, up to and including
  \<open>wi.refc.Store(int32(nat - 1))\<close>: \<open>None\<close> is \<open>goto fin\<close> (no pending work item for the
  transaction, or this target is in maintenance).
\<close>

definition Run_store :: "Smap \<Rightarrow> Snode \<Rightarrow> TCObjsMsg \<Rightarrow> XactTCObjs \<Rightarrow> XactTCObjs option" where
  "Run_store smap snode m r =
     (case pending_m r (TxnUUID m) of
        None \<Rightarrow> None
      | Some wi \<Rightarrow>
          (case InMaintOrDecomm smap snode of
             Some e \<Rightarrow> None
           | None \<Rightarrow>
               let nat = int (CountActiveTs smap);
                   wi' = wi\<lparr>refc := word_of_int (nat - 1)\<rparr>
               in Some (r\<lparr>pending_m := (pending_m r)(TxnUUID m \<mapsto> wi')\<rparr>)))"

text \<open>
  The rest of that iteration. The iterator over the selection (\<open>lriterator\<close>, not among
  the sources) is the parameter \<open>iter\<close>: it runs the per-object work and returns its
  error. \<open>Inl\<close> is \<open>goto fin\<close>, \<open>Inr\<close> goes round the loop again.
\<close>

definition Run_work ::
  "(bool \<Rightarrow> XactTCObjs \<Rightarrow> error option \<times> XactTCObjs) \<Rightarrow> Smap \<Rightarrow> Snode \<Rightarrow> TCObjsMsg
     \<Rightarrow> XactTCObjs \<Rightarrow> XactTCObjs + XactTCObjs" where
  "Run_work iter smap snode m r =
     (case Run_store smap snode m r of
        None \<Rightarrow> Inl r
      | Some r1 \<Rightarrow>
          (case iter (IsList m) r1 of
             (err, r2) \<Rightarrow>
               if aborted r2 \<or> err \<noteq> None then Inl r2
               else Inr (DecPending (sendTerm (TxnUUID m) r2))))"

text \<open>\<open>XactTCObjs._put\<close>: store a received object.\<close>

definition XactTCObjs__put ::
  "Target \<Rightarrow> ObjHdr \<Rightarrow> Reader option \<Rightarrow> XactTCObjs
     \<Rightarrow> error option \<times> XactTCObjs \<times> Reader option" where
  "XactTCObjs__put t hdr rd r =
     (case InitBck t (Bck hdr) of
        Some e \<Rightarrow> (Some e, r, rd)
      | None \<Rightarrow>
          (case PutObject t hdr rd of
             (Some e, rd') \<Rightarrow> (Some e, AddErr e r, rd')
           | (None, rd') \<Rightarrow> (None, r, rd')))"

text \<open>\<open>XactTCObjs._recv\<close>: a \<open>done\<close> from a peer, or an object to store.\<close>

definition XactTCObjs__recv ::
  "Target \<Rightarrow> ObjHdr \<Rightarrow> Reader option \<Rightarrow> XactTCObjs
     \<Rightarrow> error option \<times> XactTCObjs \<times> Reader option" where
  "XactTCObjs__recv t hdr rd r =
     (if Opcode hdr = opcodeDone then
        (let txnUUID = Opaque hdr in
         case pending_m r txnUUID of
           None \<Rightarrow> (JoinErr r, r, rd)
         | Some wi \<Rightarrow>
             let c = refc wi - 1 in
             if c = 0
             then (None, r\<lparr>pending_m := (pending_m r)(txnUUID := None),
                           wiCnt := wiCnt r - 1\<rparr>, rd)
             else (None, r\<lparr>pending_m := (pending_m r)(txnUUID \<mapsto> wi\<lparr>refc := c\<rparr>)\<rparr>, rd))
      else XactTCObjs__put t hdr rd r)"

text \<open>\<open>XactTCObjs.recv\<close>, the handler registered with the data mover.\<close>

definition XactTCObjs_recv ::
  "Target \<Rightarrow> ObjHdr \<Rightarrow> Reader option \<Rightarrow> error option \<Rightarrow> XactTCObjs
     \<Rightarrow> error option \<times> XactTCObjs \<times> Reader option" where
  "XactTCObjs_recv t hdr rd err r =
     (case err of
        Some e \<Rightarrow>
          if \<not> IsEOF e then (err, r, rd)
          else (case XactTCObjs__recv t hdr rd (IncPending r) of
                  (err', r', rd') \<Rightarrow> (err', DecPending r', DrainAndFreeReader rd'))
      | None \<Rightarrow>
          (case XactTCObjs__recv t hdr rd (IncPending r) of
             (err', r', rd') \<Rightarrow> (err', DecPending r', DrainAndFreeReader rd')))"

text \<open>
  Modelled from the spec: \<open>streamingX.addErr\<close> (not among the sources), the job's
  error handler. In the spec's words any error but a suppressed one transitions the job
  to Aborted, and the errors accumulate in the job's error sink: an error that reaches
  the handler is recorded and aborts the job, with or without continue-on-error.
\<close>

definition addErr :: "error \<Rightarrow> bool \<Rightarrow> XactTCObjs \<Rightarrow> XactTCObjs" where
  "addErr err contOnErr r = Abort err r"

text \<open>
  \<open>tcowi.do\<close>, the per-object work. The iterator's mode is \<open>lrit.lrp\<close>.
  Modelled from the spec: \<open>ToName\<close> puts the message's \<open>Prepend\<close> before the source name.
\<close>

datatype lrp = lrpList | lrpRange | lrpPrefix

definition ToName :: "TCObjsMsg \<Rightarrow> string \<Rightarrow> string" where
  "ToName m objName = Prepend m @ objName"

definition tcowi_do :: "Target \<Rightarrow> tcowi \<Rightarrow> string \<Rightarrow> lrp \<Rightarrow> XactTCObjs \<Rightarrow> XactTCObjs" where
  "tcowi_do t wi lomObjName p r =
     (let objNameTo = ToName (msg wi) lomObjName;
          sync = (syncRemote r \<and> Prepend (msg wi) = [])
      in case CopyObject t lomObjName objNameTo (DryRun (msg wi)) sync of
           Some err \<Rightarrow>
             if \<not> IsObjNotExist err \<or> p \<noteq> lrpList
             then addErr err (ContinueOnError (msg wi)) r
             else r
         | None \<Rightarrow> r)"

text \<open>
  The end of \<open>Run\<close> (label \<open>fin\<close>), on the target's view of the bucket metadata: the
  names of the buckets it knows.
  Modelled from the spec: \<open>streamingX.fin\<close> (not among the sources) deregisters the
  receive handler, closes the transport and finishes the job.
\<close>

definition fin :: "bool \<Rightarrow> XactTCObjs \<Rightarrow> XactTCObjs" where
  "fin unreg r =
     r\<lparr>finished := True, dmOpen := False,
       rxRegistered := (if unreg then False else rxRegistered r)\<rparr>"

record TargetNode =
  buckets :: "string list"
  xctn :: XactTCObjs

definition Run_fin :: "TargetNode \<Rightarrow> TargetNode" where
  "Run_fin n =
     (let r = fin True (xctn n)
      in if Err r \<noteq> None then n\<lparr>xctn := r\<lparr>pending_m := Map.empty\<rparr>\<rparr>
         else n\<lparr>xctn := r\<rparr>)"

section \<open>Bucket transform-copy (XactTCB)\<close>

text \<open>
  The results of a quiescence callback that \<open>qcb\<close> returns, and the timeouts it reads
  from the configuration (durations in nanoseconds).
\<close>

datatype QuiRes = QuiInactiveCB | QuiActive | QuiDone | QuiTimeout

record Timeouts =
  MaxKeepalive :: int
  CplaneOperation :: int
  SendFile :: int

record XactTCB = Base +
  tcb_refc :: int32
  rxlast :: int

text \<open>
  \<open>XactTCB.qcb\<close>: \<open>tot\<close> is the total time waited, \<open>now\<close> the monotonic clock, so that
  \<open>mono.Since(r.rxlast.Load())\<close> is \<open>now - rxlast r\<close>.
\<close>

definition qcb :: "Timeouts \<Rightarrow> int \<Rightarrow> int \<Rightarrow> XactTCB \<Rightarrow> QuiRes" where
  "qcb cfg now tot r =
     (if ErrCnt r > 0 then QuiTimeout
      else
        let since = now - rxlast r in
        if sint (tcb_refc r) > 0 then
          (if since > MaxKeepalive cfg \<and> tot > SendFile cfg then QuiTimeout
           else QuiActive)
        else if since > CplaneOperation cfg then QuiDone
        else QuiInactiveCB)"

text \<open>\<open>XactTCB._recv\<close>: store a received object and note the time of the receive.\<close>

definition XactTCB__recv ::
  "Target \<Rightarrow> int \<Rightarrow> ObjHdr \<Rightarrow> Reader option \<Rightarrow> XactTCB
     \<Rightarrow> error option \<times> XactTCB \<times> Reader option" where
  "XactTCB__recv t now hdr rd r =
     (case InitBck t (Bck hdr) of
        Some e \<Rightarrow> (Some e, AddErr e r, rd)
      | None \<Rightarrow>
          (case PutObject t hdr rd of
             (Some erp, rd') \<Rightarrow> (Some erp, AddErr erp r, rd')
           | (None, rd') \<Rightarrow> (None, r\<lparr>rxlast := now\<rparr>, rd')))"

text \<open>\<open>XactTCB.recv\<close>, the handler registered with the data mover.\<close>

definition XactTCB_recv ::
  "Target \<Rightarrow> int \<Rightarrow> ObjHdr \<Rightarrow> Reader option \<Rightarrow> error option \<Rightarrow> XactTCB
     \<Rightarrow> error option \<times> XactTCB \<times> Reader option" where
  "XactTCB_recv t now hdr rd err r =
     (if (case err of Some e \<Rightarrow> \<not> IsEOF e | None \<Rightarrow> False) then (err, r, rd)
      else if Opcode hdr = OpcTxnDone then (None, r\<lparr>tcb_refc := tcb_refc r - 1\<rparr>, rd)
      else (case XactTCB__recv t now hdr rd r of
              (err', r', rd') \<Rightarrow> (err', r', DrainAndFreeReader rd')))"

section \<open>S3 gateway\<close>

subsection \<open>Buckets, responses and what the gateway calls\<close>

text \<open>
  A bucket of the BMD: its provider and name, and the operations its access bits deny.
  Modelled from the spec: \<open>meta.InitByNameOnly\<close> and \<open>Bck.Allow\<close> (package meta, not
  among the sources). The lookup by name alone returns the one bucket of that name, the
  not-found error with status 404 when no bucket has the name, and the
  ambiguous-provider error when buckets of several providers have it (the spec gives
  that error no status: it is returned with status 0, which \<open>WriteErr\<close> answers as a
  request error). A denied operation is the forbidden error. \<open>MakeUname\<close> is the
  canonical serialization of provider, bucket name and object name.
\<close>

datatype perm = AceGET | AcePUT | AceObjDELETE | AceDestroyBucket

record meta_Bck =
  Provider :: string
  Name :: string
  denied :: "perm list"

definition InitByNameOnly :: "string \<Rightarrow> meta_Bck list \<Rightarrow> (error \<times> nat) + meta_Bck" where
  "InitByNameOnly bucket bmd =
     (case filter (\<lambda>b. Name b = bucket) bmd of
        [] \<Rightarrow> Inl (ErrBckNotFound, 404)
      | [b] \<Rightarrow> Inr b
      | b # c # bs \<Rightarrow> Inl (ErrAmbiguousProvider, 0))"

definition Allow :: "meta_Bck \<Rightarrow> perm \<Rightarrow> error option" where
  "Allow bck ace = (if ace \<in> set (denied bck) then Some ErrForbidden else None)"

definition MakeUname :: "meta_Bck \<Rightarrow> string \<Rightarrow> string" where
  "MakeUname bck objName = Provider bck @ ''/'' @ Name bck @ ''/'' @ objName"

text \<open>
  The S3 documents of package s3 (not among the sources), with the fields the gateway
  reads and writes: the keys of a \<open>Delete\<close> request, the entries of a \<open>DeleteResult\<close>,
  the uploads of a \<open>ListMptUploadsResult\<close>.
\<close>

record DeleteObject =
  Key :: string

record Delete =
  Object :: "DeleteObject list"

record DeletedObjInfo =
  DeletedKey :: string

record DeleteResult =
  Objs :: "DeletedObjInfo list"

record UploadInfoResult =
  UploadKey :: string
  UploadID :: string

record ListMptUploadsResult =
  MptBucket :: string
  Uploads :: "UploadInfoResult list"

datatype doc =
    ErrorDoc error
  | DeleteResultDoc DeleteResult
  | ListMptUploadsDoc ListMptUploadsResult
  | RedirectDoc string

text \<open>
  An \<open>http.ResponseWriter\<close>: the status once the header is written (\<open>None\<close> before), the
  headers, the documents written to the body, and whether the response is the
  primary's, relayed. A handler that writes nothing answers 200 with an empty body.
\<close>

record ResponseWriter =
  code :: "nat option"
  hdrs :: "(string \<times> string) list"
  body :: "doc list"
  relayed :: bool

definition w0 :: ResponseWriter where
  "w0 = \<lparr>code = None, hdrs = [], body = [], relayed = False\<rparr>"

definition WriteHeader :: "nat \<Rightarrow> ResponseWriter \<Rightarrow> ResponseWriter" where
  "WriteHeader c w = (if code w = None then w\<lparr>code := Some c\<rparr> else w)"

definition Write :: "doc \<Rightarrow> ResponseWriter \<Rightarrow> ResponseWriter" where
  "Write d w = (WriteHeader 200 w)\<lparr>body := body w @ [d]\<rparr>"

definition Header_Set :: "string \<Rightarrow> string \<Rightarrow> ResponseWriter \<Rightarrow> ResponseWriter" where
  "Header_Set k v w = (if code w = None then w\<lparr>hdrs := (k, v) # hdrs w\<rparr> else w)"

definition status :: "ResponseWriter \<Rightarrow> nat" where
  "status w = (case code w of None \<Rightarrow> 200 | Some c \<Rightarrow> c)"

text \<open>
  Modelled from the spec: \<open>s3.WriteErr\<close> (not among the sources) writes the AWS-style
  error document with the given status, a request error (400) when the status is 0.
\<close>

definition WriteErr :: "error \<Rightarrow> nat \<Rightarrow> ResponseWriter \<Rightarrow> ResponseWriter" where
  "WriteErr err errCode w =
     Write (ErrorDoc err) (WriteHeader (if errCode = 0 then 400 else errCode) w)"

record Request =
  Path :: string
  ReqBody :: string

text \<open>
  What the gateway calls and does not define in these sources: the XML decoder on a
  request body, the JSON round trip of the list-range message, the cluster-wide
  list-range primitive \<open>p.listrange\<close>, \<open>p.destroyBucket\<close>, the intra-cluster call to a
  target with the XML decoder on its answer, and the hash of rendezvous routing.
\<close>

record Backend =
  xmlDecodeDelete :: "string \<Rightarrow> error + Delete"
  jsonUnmarshal :: "string list \<Rightarrow> error + string list"
  listrange :: "string \<Rightarrow> string \<Rightarrow> string list \<Rightarrow> error option"
  destroyRes :: "meta_Bck \<Rightarrow> error option"
  call :: "Snode \<Rightarrow> string \<Rightarrow> (string \<times> string) list \<Rightarrow> error + string"
  xmlUnmarshalMpt :: "string \<Rightarrow> ListMptUploadsResult option"
  hrw :: "string \<Rightarrow> string \<Rightarrow> nat"

text \<open>
  The proxy: its BMD and cluster map, whether it is the primary, and the list-range
  invocations it has made (method, bucket, object names).
\<close>

record proxy =
  bmd :: "meta_Bck list"
  smap :: Smap
  isPrimary :: bool
  lrCalls :: "(string \<times> string \<times> string list) list"

text \<open>
  Modelled from the spec: \<open>p.forwardCP\<close> (not among the sources): a proxy that is not
  the primary forwards the request to the primary and relays its response.
\<close>

definition forwardCP :: "proxy \<Rightarrow> ResponseWriter \<Rightarrow> bool \<times> ResponseWriter" where
  "forwardCP p w = (if isPrimary p then (False, w) else (True, w\<lparr>relayed := True\<rparr>))"

text \<open>
  Modelled from the spec: \<open>p.destroyBucket\<close> (not among the sources): when the destroy
  path reports no error the bucket (of that provider and name) is gone from the BMD.
\<close>

definition destroyBucket :: "Backend \<Rightarrow> meta_Bck \<Rightarrow> proxy \<Rightarrow> error option \<times> proxy" where
  "destroyBucket be bck p =
     (case destroyRes be bck of
        Some err \<Rightarrow> (Some err, p)
      | None \<Rightarrow>
          (None, p\<lparr>bmd := filter (\<lambda>b. \<not> (Provider b = Provider bck \<and> Name b = Name bck))
                             (bmd p)\<rparr>))"

text \<open>
  Modelled from the spec: \<open>Smap.HrwName2T\<close> (not among the sources) is rendezvous
  hashing: among the active targets the highest \<open>hrw uname id\<close> wins, and of two equal
  scores the node id that comes first in lexicographic (bytewise) order; no active
  target is an error. \<open>id_less\<close> is that order on node ids.
\<close>

fun id_less :: "string \<Rightarrow> string \<Rightarrow> bool" where
  "id_less [] [] = False"
| "id_less [] (y # ys) = True"
| "id_less (x # xs) [] = False"
| "id_less (x # xs) (y # ys) =
     ((of_char x :: nat) < of_char y \<or> (x = y \<and> id_less xs ys))"

definition hrwWins :: "Backend \<Rightarrow> string \<Rightarrow> Snode \<Rightarrow> Snode \<Rightarrow> bool" where
  "hrwWins be uname c best =
     (hrw be uname (sid c) > hrw be uname (sid best) \<or>
      (hrw be uname (sid c) = hrw be uname (sid best) \<and> id_less (sid c) (sid best)))"

definition HrwName2T :: "Backend \<Rightarrow> Smap \<Rightarrow> string \<Rightarrow> error + Snode" where
  "HrwName2T be sm uname =
     (case filter (\<lambda>t. \<not> maint t) (Tmap sm) of
        [] \<Rightarrow> Inl ErrNoTargets
      | t # ts \<Rightarrow> Inr (fold (\<lambda>c best. if hrwWins be uname c best then c else best) ts t))"

text \<open>
  Modelled from the spec: \<open>p.redirectURL\<close> and \<open>p.s3Redirect\<close> (not among the sources):
  the URL names the target, the request's path and the network role; the reply is a 307
  with that URL as its location.
\<close>

definition redirectURL :: "Request \<Rightarrow> Snode \<Rightarrow> string \<Rightarrow> string" where
  "redirectURL req si net = ''http://'' @ sid si @ Path req @ ''?net='' @ net"

definition s3Redirect :: "Snode \<Rightarrow> string \<Rightarrow> string \<Rightarrow> ResponseWriter \<Rightarrow> ResponseWriter" where
  "s3Redirect si url bucket w =
     Write (RedirectDoc url) (WriteHeader 307 (Header_Set ''Location'' url w))"

subsection \<open>Handlers\<close>

text \<open>\<open>proxy.unsupported\<close>: GET of a bucket's lifecycle, cors, policy or acl.\<close>

definition unsupported :: "proxy \<Rightarrow> string \<Rightarrow> ResponseWriter \<Rightarrow> ResponseWriter" where
  "unsupported p bucket w =
     (case InitByNameOnly bucket (bmd p) of
        Inl (err, errCode) \<Rightarrow> WriteErr err errCode w
      | Inr bck \<Rightarrow> WriteHeader 501 w)"

text \<open>\<open>proxy.delBckS3\<close>: DELETE of a bucket.\<close>

definition delBckS3 ::
  "Backend \<Rightarrow> string \<Rightarrow> proxy \<times> ResponseWriter \<Rightarrow> proxy \<times> ResponseWriter" where
  "delBckS3 be bucket pw =
     (case pw of (p, w) \<Rightarrow>
        (case InitByNameOnly bucket (bmd p) of
           Inl (err, errCode) \<Rightarrow> (p, WriteErr err errCode w)
         | Inr bck \<Rightarrow>
             (case Allow bck AceDestroyBucket of
                Some err \<Rightarrow> (p, WriteErr err 403 w)
              | None \<Rightarrow>
                  (case forwardCP p w of
                     (True, w') \<Rightarrow> (p, w')
                   | (False, w') \<Rightarrow>
                       (case destroyBucket be bck p of
                          (None, p') \<Rightarrow> (p', w')
                        | (Some err, p') \<Rightarrow>
                            if err = ErrBucketAlreadyExists then (p', w')
                            else (p', WriteErr err 500 w'))))))"

text \<open>\<open>proxy.delMultipleObjs\<close>: POST or DELETE of a bucket with \<open>?delete\<close>.\<close>

definition delMultipleObjs ::
  "Backend \<Rightarrow> Request \<Rightarrow> string \<Rightarrow> proxy \<times> ResponseWriter \<Rightarrow> proxy \<times> ResponseWriter" where
  "delMultipleObjs be req bucket pw =
     (case pw of (p, w) \<Rightarrow>
        (case InitByNameOnly bucket (bmd p) of
           Inl (err, errCode) \<Rightarrow> (p, WriteErr err errCode w)
         | Inr bck \<Rightarrow>
             (case Allow bck AceObjDELETE of
                Some err \<Rightarrow> (p, WriteErr err 403 w)
              | None \<Rightarrow>
                  (case xmlDecodeDelete be (ReqBody req) of
                     Inl err \<Rightarrow> (p, WriteErr err 0 w)
                   | Inr objList \<Rightarrow>
                       if length (Object objList) = 0 then (p, w)
                       else
                         let ObjNames = map Key (Object objList) in
                         (case jsonUnmarshal be ObjNames of
                            Inl err \<Rightarrow> (p, WriteErr err 0 w)
                          | Inr names2 \<Rightarrow>
                              let p' = p\<lparr>lrCalls := lrCalls p @ [(''DELETE'', bucket, names2)]\<rparr>;
                                  w1 = (case listrange be ''DELETE'' bucket names2 of
                                          Some err \<Rightarrow> WriteErr err 0 w
                                        | None \<Rightarrow> w);
                                  all = \<lparr>Objs = map (\<lambda>name. \<lparr>DeletedKey = name\<rparr>) ObjNames\<rparr>
                              in (p', Write (DeleteResultDoc all)
                                        (Header_Set ''Content-Type'' ''application/xml'' w1)))))))"

text \<open>
  \<open>proxy.listMultipart\<close>: GET of a bucket with \<open>?uploads\<close>. \<open>mptAdd\<close> is the body of the
  loop over the targets of the map.
\<close>

definition mptAdd ::
  "Backend \<Rightarrow> Request \<Rightarrow> (string \<times> string) list \<Rightarrow> Snode \<Rightarrow> ListMptUploadsResult
     \<Rightarrow> ListMptUploadsResult" where
  "mptAdd be req q si all =
     (case call be si (Path req) q of
        Inl err \<Rightarrow> all
      | Inr b \<Rightarrow>
          (case xmlUnmarshalMpt be b of
             None \<Rightarrow> all
           | Some results \<Rightarrow>
               if length (Uploads results) > 0 then
                 (let all1 = (if length (Uploads all) = 0 then results\<lparr>Uploads := []\<rparr> else all)
                  in all1\<lparr>Uploads := Uploads all1 @ Uploads results\<rparr>)
               else all))"

definition listMultipart ::
  "Backend \<Rightarrow> Request \<Rightarrow> meta_Bck \<Rightarrow> (string \<times> string) list \<Rightarrow> proxy \<Rightarrow> ResponseWriter
     \<Rightarrow> ResponseWriter" where
  "listMultipart be req bck q p w =
     (if CountActiveTs (smap p) = 1 then
        (case HrwName2T be (smap p) (MakeUname bck []) of
           Inl err \<Rightarrow> WriteErr err 0 w
         | Inr si \<Rightarrow> s3Redirect si (redirectURL req si ''intra-control'') (Name bck) w)
      else
        (let all = fold (mptAdd be req q) (Tmap (smap p)) \<lparr>MptBucket = [], Uploads = []\<rparr>
         in Write (ListMptUploadsDoc all) (Header_Set ''Content-Type'' ''application/xml'' w)))"

subsection \<open>Dispatch\<close>

text \<open>
  \<open>proxy.s3Handler\<close> after \<open>parseURL\<close>: the handler it calls, with the arguments, for a
  method, the path's items and the query. \<open>has q k\<close> is Go's \<open>_, ok := q[k]\<close> and
  \<open>q.Has(k)\<close>.
\<close>

datatype Method = HEAD | GET | PUT | POST | DELETE | OtherMethod string

datatype handler =
    Call_WriteErr error
  | Call_WriteErr405
  | Call_headBckS3 string
  | Call_headObjS3 "string list"
  | Call_bckNamesFromBMD
  | Call_unsupported string
  | Call_getBckVersioningS3 string
  | Call_listObjectsS3 string
  | Call_getObjS3 "string list" bool
  | Call_putBckVersioningS3 string
  | Call_putBckS3 string
  | Call_putObjS3 "string list"
  | Call_handleMptUpload "string list"
  | Call_delMultipleObjs string
  | Call_delBckS3 string
  | Call_delObjS3 "string list"

definition has :: "(string \<times> string) list \<Rightarrow> string \<Rightarrow> bool" where
  "has q k = (map_of q k \<noteq> None)"

definition s3Handler :: "Method \<Rightarrow> string list \<Rightarrow> (string \<times> string) list \<Rightarrow> handler" where
  "s3Handler m apiItems q =
     (case m of
        HEAD \<Rightarrow>
          if length apiItems = 0 then Call_WriteErr ErrS3Req
          else if length apiItems = 1 then Call_headBckS3 (apiItems ! 0)
          else Call_headObjS3 apiItems
      | GET \<Rightarrow>
          if length apiItems = 0 then Call_bckNamesFromBMD
          else if has q ''lifecycle'' \<or> has q ''policy'' \<or> has q ''cors'' \<or> has q ''acl''
          then Call_unsupported (apiItems ! 0)
          else
            let listMultipart = has q ''uploads'' in
            if length apiItems = 1 \<and> \<not> listMultipart then
              (if has q ''versioning'' then Call_getBckVersioningS3 (apiItems ! 0)
               else Call_listObjectsS3 (apiItems ! 0))
            else Call_getObjS3 apiItems listMultipart
      | PUT \<Rightarrow>
          if length apiItems = 0 then Call_WriteErr ErrS3Req
          else if length apiItems = 1 then
            (if has q ''versioning'' then Call_putBckVersioningS3 (apiItems ! 0)
             else Call_putBckS3 (apiItems ! 0))
          else Call_putObjS3 apiItems
      | POST \<Rightarrow>
          if has q ''uploadId'' \<or> has q ''uploads'' then Call_handleMptUpload apiItems
          else if length apiItems \<noteq> 1 then Call_WriteErr ErrS3Req
          else if \<not> has q ''delete'' then Call_WriteErr ErrS3Req
          else Call_delMultipleObjs (apiItems ! 0)
      | DELETE \<Rightarrow>
          if length apiItems = 0 then Call_WriteErr ErrS3Req
          else if length apiItems = 1 then
            (if has q ''delete'' then Call_delMultipleObjs (apiItems ! 0)
             else Call_delBckS3 (apiItems ! 0))
          else Call_delObjS3 apiItems
      | OtherMethod x \<Rightarrow> Call_WriteErr405)"

section \<open>The spec's words, and sample inputs\<close>

text \<open>
  The upload entries one target contributes to a listing of multipart uploads, as the
  spec words it: the \<open>Uploads\<close> of its parsed XML response (none when the call or the
  parse fails).
\<close>

definition targetUploads ::
  "Backend \<Rightarrow> Request \<Rightarrow> (string \<times> string) list \<Rightarrow> Snode \<Rightarrow> UploadInfoResult list" where
  "targetUploads be req q si =
     (case call be si (Path req) q of
        Inl err \<Rightarrow> []
      | Inr b \<Rightarrow> (case xmlUnmarshalMpt be b of None \<Rightarrow> [] | Some results \<Rightarrow> Uploads results))"

text \<open>Three active targets and one in maintenance; a map of three and a map of one.\<close>

definition node_t1 :: Snode where
  "node_t1 = \<lparr>sid = ''t1'', maint = False\<rparr>"

definition node_t2 :: Snode where
  "node_t2 = \<lparr>sid = ''t2'', maint = False\<rparr>"

definition node_t3 :: Snode where
  "node_t3 = \<lparr>sid = ''t3'', maint = False\<rparr>"

definition node_t4 :: Snode where
  "node_t4 = \<lparr>sid = ''t4'', maint = True\<rparr>"

definition smap_three :: Smap where
  "smap_three = \<lparr>Tmap = [node_t1, node_t2, node_t3]\<rparr>"

definition smap_one :: Smap where
  "smap_one = \<lparr>Tmap = [node_t4, node_t2]\<rparr>"

text \<open>
  A job message for transaction \<open>u1\<close> without continue-on-error, the job right after
  \<open>Begin\<close>, and the same job with one peer left to answer.
\<close>

definition msg_u1 :: TCObjsMsg where
  "msg_u1 = \<lparr>TxnUUID = ''u1'', IsList = True, Prepend = [], DryRun = False,
              ContinueOnError = False\<rparr>"

definition job_empty :: XactTCObjs where
  "job_empty = \<lparr>errs = [], aborted = False, npending = 0, finished = False,
     pending_m = Map.empty, wiCnt = 0, termSent = [], rxRegistered = True, dmOpen = True,
     syncRemote = False\<rparr>"

definition job_u1 :: XactTCObjs where
  "job_u1 = Begin msg_u1 job_empty"

definition job_last :: XactTCObjs where
  "job_last = job_u1\<lparr>pending_m := [''u1'' \<mapsto> \<lparr>msg = msg_u1, refc = 1\<rparr>]\<rparr>"

definition tcb_job :: XactTCB where
  "tcb_job = \<lparr>errs = [], aborted = False, npending = 0, finished = False,
     tcb_refc = 1, rxlast = 0\<rparr>"

definition timeouts :: Timeouts where
  "timeouts = \<lparr>MaxKeepalive = 1000, CplaneOperation = 10, SendFile = 60\<rparr>"

text \<open>
  A blob store where every operation succeeds (a put reads its reader to the end), and
  one where the source object of a copy is missing. A \<open>done\<close> header for \<open>u1\<close>, an
  object header, and a reader with three bytes unread.
\<close>

definition store_ok :: Target where
  "store_ok = \<lparr>InitBck = (\<lambda>b. None),
     PutObject = (\<lambda>h rd. (None, map_option (\<lambda>x. x\<lparr>unread := 0\<rparr>) rd)),
     CopyObject = (\<lambda>src dst dry sync. None)\<rparr>"

definition store_notfound :: Target where
  "store_notfound = store_ok\<lparr>CopyObject := (\<lambda>src dst dry sync. Some ErrObjNotExist)\<rparr>"

definition hdr_done :: ObjHdr where
  "hdr_done = \<lparr>Bck = ''b2'', ObjName = [], Opaque = ''u1'', Opcode = 27182\<rparr>"

definition hdr_obj :: ObjHdr where
  "hdr_obj = \<lparr>Bck = ''b2'', ObjName = ''o1'', Opaque = [], Opcode = 0\<rparr>"

definition rdr3 :: Reader where
  "rdr3 = \<lparr>unread = 3, freed = False\<rparr>"

text \<open>
  A target node whose job failed with an error, holding the source bucket and the
  destination bucket that the job created.
\<close>

definition node_failed :: TargetNode where
  "node_failed = \<lparr>buckets = [''src'', ''dst''],
     xctn = job_u1\<lparr>errs := [ErrOther ''put failed'']\<rparr>\<rparr>"

text \<open>
  A gateway that is the primary, with bucket \<open>b1\<close> and three active targets, and what it
  calls: the body \<open>k1,k2,k3\<close> decodes to three keys, any other body to none; every call
  succeeds, and a target answers with one upload named after itself. A second bucket
  \<open>b1\<close> of another provider, and a backend whose list-range primitive fails.
\<close>

definition be_ok :: Backend where
  "be_ok = \<lparr>
     xmlDecodeDelete = (\<lambda>b. if b = ''k1,k2,k3''
        then Inr \<lparr>Object = [\<lparr>Key = ''k1''\<rparr>, \<lparr>Key = ''k2''\<rparr>, \<lparr>Key = ''k3''\<rparr>]\<rparr>
        else Inr \<lparr>Object = []\<rparr>),
     jsonUnmarshal = (\<lambda>names. Inr names),
     listrange = (\<lambda>m b names. None),
     destroyRes = (\<lambda>b. None),
     call = (\<lambda>si path q. Inr (sid si)),
     xmlUnmarshalMpt = (\<lambda>b. Some \<lparr>MptBucket = ''b1'', Uploads = [\<lparr>UploadKey = b, UploadID = ''1''\<rparr>]\<rparr>),
     hrw = (\<lambda>uname nid. length nid)\<rparr>"

definition bck_b1 :: meta_Bck where
  "bck_b1 = \<lparr>Provider = ''ais'', Name = ''b1'', denied = []\<rparr>"

definition bck_b1_aws :: meta_Bck where
  "bck_b1_aws = \<lparr>Provider = ''aws'', Name = ''b1'', denied = []\<rparr>"

definition be_lrfail :: Backend where
  "be_lrfail = be_ok\<lparr>listrange := (\<lambda>m b names. Some (ErrOther ''delete failed''))\<rparr>"

definition proxy_b1 :: proxy where
  "proxy_b1 = \<lparr>bmd = [bck_b1], smap = smap_three, isPrimary = True, lrCalls = []\<rparr>"

definition req_delete :: Request where
  "req_delete = \<lparr>Path = ''/s3/b1'', ReqBody = ''k1,k2,k3''\<rparr>"

definition req_empty :: Request where
  "req_empty = \<lparr>Path = ''/s3/b1'', ReqBody = ''<Delete></Delete>''\<rparr>"

section \<open>Properties\<close>

subsection \<open>Helper lemmas\<close>

lemma sint_int32:
  "- (2 ^ 31) \<le> k \<Longrightarrow> k < 2 ^ 31 \<Longrightarrow> sint (word_of_int k :: int32) = k"
  by (simp add: sint_sbintrunc' signed_take_bit_int_eq_self)

lemma status_w0: "status w0 = 200" "body w0 = []" "code w0 = None"
  by (simp_all add: status_def w0_def)

lemma mptAdd_Uploads:
  "Uploads (mptAdd be req q si all) = Uploads all @ targetUploads be req q si"
  by (simp add: mptAdd_def targetUploads_def Let_def split: sum.splits option.splits)

lemma fold_mptAdd_Uploads:
  "Uploads (fold (mptAdd be req q) ts all) = Uploads all @ concat (map (targetUploads be req q) ts)"
  by (induction ts arbitrary: all) (simp_all add: mptAdd_Uploads)

lemma length_filter_one: "length xs = Suc 0 \<Longrightarrow> \<exists>x. xs = [x]"
  by (cases xs) auto

lemma InitByNameOnly_Inr:
  "InitByNameOnly bucket xs = Inr bck \<Longrightarrow> filter (\<lambda>b. Name b = bucket) xs = [bck]"
  by (auto simp: InitByNameOnly_def split: list.splits)

lemma InitByNameOnly_Name: "InitByNameOnly bucket xs = Inr bck \<Longrightarrow> Name bck = bucket"
proof -
  assume "InitByNameOnly bucket xs = Inr bck"
  then have "filter (\<lambda>b. Name b = bucket) xs = [bck]" by (rule InitByNameOnly_Inr)
  then have "bck \<in> set (filter (\<lambda>b. Name b = bucket) xs)" by simp
  then show ?thesis by simp
qed

lemma InitByNameOnly_unknown:
  "bucket \<notin> Name ` set xs \<Longrightarrow> InitByNameOnly bucket xs = Inl (ErrBckNotFound, 404)"
proof -
  assume "bucket \<notin> Name ` set xs"
  then have "filter (\<lambda>b. Name b = bucket) xs = []"
    by (auto simp: filter_empty_conv)
  then show ?thesis by (simp add: InitByNameOnly_def)
qed

lemma InitByNameOnly_Inl:
  "InitByNameOnly bucket xs = Inl (err, c) \<Longrightarrow>
     (err = ErrBckNotFound \<and> c = 404) \<or> (err = ErrAmbiguousProvider \<and> c = 0)"
  by (auto simp: InitByNameOnly_def split: list.splits)

lemma InitByNameOnly_gone:
  assumes "InitByNameOnly bucket xs = Inr bck"
  shows "InitByNameOnly bucket
           (filter (\<lambda>b. \<not> (Provider b = Provider bck \<and> Name b = Name bck)) xs) =
         Inl (ErrBckNotFound, 404)"
proof -
  let ?Q = "\<lambda>b. \<not> (Provider b = Provider bck \<and> Name b = Name bck)"
  have f: "filter (\<lambda>b. Name b = bucket) xs = [bck]"
    using assms by (rule InitByNameOnly_Inr)
  have "filter (\<lambda>b. Name b = bucket) (filter ?Q xs) = filter ?Q (filter (\<lambda>b. Name b = bucket) xs)"
    by (simp add: conj_commute)
  also have "\<dots> = []" unfolding f by simp
  finally show ?thesis by (simp add: InitByNameOnly_def)
qed

lemma Run_fin_buckets: "buckets (Run_fin n) = buckets n"
  by (simp add: Run_fin_def Let_def)

subsection \<open>Transform-copy jobs\<close>

text \<open>
  C1. On a work dispatch in \<open>Run\<close>, for a pending work item on a target that is not in
  maintenance, the remaining-ack counter \<open>refc\<close> is stored as the number of active targets
  minus one (as a signed 32-bit value, exact for any count up to \<open>2 ^ 31\<close>). Every
  received \<open>done\<close> message for a pending transaction decrements that item's \<open>refc\<close> by
  one and returns no error, and the item is removed from the pending map exactly when
  the decremented \<open>refc\<close> is 0; otherwise it stays with the decremented counter. No other
  entry of the pending map changes.
\<close>

theorem tco_refc_protocol:
  "(pending_m r (TxnUUID m) = Some wi \<and> InMaintOrDecomm sm snode = None \<longrightarrow>
      (\<exists>r'. Run_store sm snode m r = Some r' \<and>
         pending_m r' (TxnUUID m) =
           Some (wi\<lparr>refc := word_of_int (int (CountActiveTs sm) - 1)\<rparr>)) \<and>
      (CountActiveTs sm \<le> 2 ^ 31 \<longrightarrow>
         sint (word_of_int (int (CountActiveTs sm) - 1) :: int32) =
           int (CountActiveTs sm) - 1))
   \<and> (Opcode hdr = opcodeDone \<and> pending_m r (Opaque hdr) = Some wi \<longrightarrow>
      (case XactTCObjs__recv t hdr rd r of
         (e, r', rd') \<Rightarrow>
           e = None \<and>
           (pending_m r' (Opaque hdr) = None \<longleftrightarrow> refc wi - 1 = 0) \<and>
           (refc wi - 1 \<noteq> 0 \<longrightarrow>
              pending_m r' (Opaque hdr) = Some (wi\<lparr>refc := refc wi - 1\<rparr>)) \<and>
           (\<forall>u. u \<noteq> Opaque hdr \<longrightarrow> pending_m r' u = pending_m r u)))"
proof (intro conjI impI)
  assume a: "pending_m r (TxnUUID m) = Some wi \<and> InMaintOrDecomm sm snode = None"
  then show "\<exists>r'. Run_store sm snode m r = Some r' \<and>
         pending_m r' (TxnUUID m) =
           Some (wi\<lparr>refc := word_of_int (int (CountActiveTs sm) - 1)\<rparr>)"
    by (simp add: Run_store_def Let_def)
next
  assume b: "CountActiveTs sm \<le> 2 ^ 31"
  have "- (2 ^ 31) \<le> int (CountActiveTs sm) - 1" by simp
  moreover have "int (CountActiveTs sm) - 1 < 2 ^ 31" using b by simp
  ultimately show "sint (word_of_int (int (CountActiveTs sm) - 1) :: int32) =
      int (CountActiveTs sm) - 1"
    by (rule sint_int32)
next
  assume c: "Opcode hdr = opcodeDone \<and> pending_m r (Opaque hdr) = Some wi"
  then show "case XactTCObjs__recv t hdr rd r of
         (e, r', rd') \<Rightarrow>
           e = None \<and>
           (pending_m r' (Opaque hdr) = None \<longleftrightarrow> refc wi - 1 = 0) \<and>
           (refc wi - 1 \<noteq> 0 \<longrightarrow>
              pending_m r' (Opaque hdr) = Some (wi\<lparr>refc := refc wi - 1\<rparr>)) \<and>
           (\<forall>u. u \<noteq> Opaque hdr \<longrightarrow> pending_m r' u = pending_m r u)"
    by (simp add: XactTCObjs__recv_def Let_def)
qed

theorem tco_refc_protocol_witness:
  "(\<exists>r'. Run_store smap_three node_t1 msg_u1 job_u1 = Some r' \<and>
      pending_m r' ''u1'' = Some \<lparr>msg = msg_u1, refc = 2\<rparr>) \<and>
   (case XactTCObjs__recv store_ok hdr_done None job_last of
      (e, r', rd') \<Rightarrow> e = None \<and> pending_m r' ''u1'' = None)"
  using tco_refc_protocol [of job_u1 msg_u1 "\<lparr>msg = msg_u1, refc = 0\<rparr>" smap_three node_t1
      hdr_obj store_ok None]
    tco_refc_protocol [of job_last msg_u1 "\<lparr>msg = msg_u1, refc = 1\<rparr>" smap_three node_t1
      hdr_done store_ok None]
  by (simp add: job_u1_def job_last_def Begin_def job_empty_def msg_u1_def smap_three_def
      node_t1_def node_t2_def node_t3_def CountActiveTs_def InMaintOrDecomm_def hdr_done_def
      hdr_obj_def opcodeDone_def split: prod.splits)

text \<open>
  C3, as amended. Once the job has recorded an error, \<open>qcb\<close> reports timeout whatever
  \<open>refc\<close> is. With no error recorded and \<open>refc > 0\<close> it reports active, except that it
  reports timeout when there has been no receive activity for longer than the maximum
  keepalive interval and the total wait exceeds the send-file timeout.
\<close>

theorem qcb_waiting_discipline:
  "(ErrCnt r > 0 \<longrightarrow> qcb cfg now tot r = QuiTimeout) \<and>
   (ErrCnt r = 0 \<and> sint (tcb_refc r) > 0 \<longrightarrow>
      qcb cfg now tot r =
        (if now - rxlast r > MaxKeepalive cfg \<and> tot > SendFile cfg then QuiTimeout
         else QuiActive))"
  by (simp add: qcb_def Let_def)

theorem qcb_waiting_discipline_witness:
  "qcb timeouts 100 100 (tcb_job\<lparr>errs := [ErrOther ''x'']\<rparr>) = QuiTimeout \<and>
   qcb timeouts 2000 100 tcb_job = QuiTimeout \<and>
   qcb timeouts 500 100 tcb_job = QuiActive"
  using qcb_waiting_discipline [of "tcb_job\<lparr>errs := [ErrOther ''x'']\<rparr>" timeouts 100 100]
    qcb_waiting_discipline [of tcb_job timeouts 2000 100]
    qcb_waiting_discipline [of tcb_job timeouts 500 100]
  by (simp add: ErrCnt_def tcb_job_def timeouts_def)

text \<open>
  C3 as stated fails twice. With an error recorded, \<open>refc = 1\<close>, a receive 5 ns ago and
  a total wait of 100 ns the claim's exception does not apply, yet the result is not
  active. With no error, \<open>refc = 1\<close>, no receive for 500 ns (longer than the control-plane
  period of 10 ns, shorter than the keepalive of 1000 ns) and a total wait over the
  send-file timeout, the claim's exception applies, yet the result is not timeout.
\<close>

theorem qcb_claim_counterexample:
  "sint (tcb_refc (tcb_job\<lparr>errs := [ErrOther ''x'']\<rparr>)) > 0 \<and>
   \<not> ((5 - rxlast (tcb_job\<lparr>errs := [ErrOther ''x'']\<rparr>) > CplaneOperation timeouts) \<and> (100 > SendFile timeouts)) \<and>
   qcb timeouts 5 100 (tcb_job\<lparr>errs := [ErrOther ''x'']\<rparr>) \<noteq> QuiActive \<and>
   sint (tcb_refc tcb_job) > 0 \<and>
   500 - rxlast tcb_job > CplaneOperation timeouts \<and> 100 > SendFile timeouts \<and>
   qcb timeouts 500 100 tcb_job \<noteq> QuiTimeout"
  by (simp add: qcb_def ErrCnt_def tcb_job_def timeouts_def)

text \<open>
  C4 at its failing input: the bucket job's handler, given a \<open>done\<close> header and a reader
  with three bytes unread, returns without draining or freeing the reader, where the
  multi-object job's handler drains it on the same message. Given a transport error that
  is not an end of stream, neither handler drains the reader.
\<close>

theorem tcb_recv_done_leaves_reader:
  "(case XactTCB_recv store_ok 7 hdr_done (Some rdr3) None tcb_job of
      (e, r', rd') \<Rightarrow> e = None \<and> rd' = Some rdr3 \<and> \<not> drained rd') \<and>
   (case XactTCObjs_recv store_ok hdr_done (Some rdr3) None job_last of
      (e, r', rd') \<Rightarrow> e = None \<and> drained rd') \<and>
   (case XactTCB_recv store_ok 7 hdr_obj (Some rdr3) (Some (ErrOther ''reset'')) tcb_job of
      (e, r', rd') \<Rightarrow> \<not> drained rd') \<and>
   (case XactTCObjs_recv store_ok hdr_obj (Some rdr3) (Some (ErrOther ''reset'')) job_last of
      (e, r', rd') \<Rightarrow> \<not> drained rd')"
  by (simp add: XactTCB_recv_def XactTCObjs_recv_def XactTCObjs__recv_def IsEOF_def
      OpcTxnDone_def opcodeDone_def hdr_done_def hdr_obj_def rdr3_def drained_def
      DrainAndFreeReader_def job_last_def job_u1_def Begin_def job_empty_def IncPending_def
      DecPending_def Let_def)

text \<open>
  C5, as amended. When \<open>CopyObject\<close> fails with object-not-found while the iterator walks
  an explicit list, \<open>tcowi.do\<close> leaves the job as it is (neither aborted nor any error
  recorded), whether or not the message carries continue-on-error. Every other error
  goes to the job's error handler together with the message's continue-on-error flag,
  and the job is aborted. With no error the job is unchanged.
\<close>

theorem tcowi_do_error_policy:
  "(CopyObject t n (ToName (msg wi) n) (DryRun (msg wi))
        (syncRemote r \<and> Prepend (msg wi) = []) = Some err \<longrightarrow>
      (IsObjNotExist err \<and> p = lrpList \<longrightarrow> tcowi_do t wi n p r = r) \<and>
      (\<not> (IsObjNotExist err \<and> p = lrpList) \<longrightarrow>
         tcowi_do t wi n p r = addErr err (ContinueOnError (msg wi)) r \<and>
         aborted (tcowi_do t wi n p r)))
   \<and> (CopyObject t n (ToName (msg wi) n) (DryRun (msg wi))
        (syncRemote r \<and> Prepend (msg wi) = []) = None \<longrightarrow>
      tcowi_do t wi n p r = r)"
proof -
  have ab: "aborted (addErr e c r)" for e c
    by (simp add: addErr_def Abort_def AddErr_def)
  show ?thesis
    using ab by (auto simp: tcowi_do_def Let_def)
qed

theorem tcowi_do_error_policy_witness:
  "tcowi_do store_notfound \<lparr>msg = msg_u1, refc = 2\<rparr> ''o1'' lrpList job_u1 = job_u1 \<and>
   tcowi_do store_notfound \<lparr>msg = msg_u1, refc = 2\<rparr> ''o1'' lrpRange job_u1 =
     addErr ErrObjNotExist False job_u1 \<and>
   aborted (tcowi_do store_notfound \<lparr>msg = msg_u1, refc = 2\<rparr> ''o1'' lrpRange job_u1) \<and>
   tcowi_do store_ok \<lparr>msg = msg_u1, refc = 2\<rparr> ''o1'' lrpList job_u1 = job_u1"
  using tcowi_do_error_policy [of store_notfound "''o1''" "\<lparr>msg = msg_u1, refc = 2\<rparr>" job_u1
      ErrObjNotExist lrpList]
    tcowi_do_error_policy [of store_notfound "''o1''" "\<lparr>msg = msg_u1, refc = 2\<rparr>" job_u1
      ErrObjNotExist lrpRange]
    tcowi_do_error_policy [of store_ok "''o1''" "\<lparr>msg = msg_u1, refc = 2\<rparr>" job_u1
      ErrObjNotExist lrpList]
  by (simp add: store_notfound_def store_ok_def IsObjNotExist_def msg_u1_def addErr_def
      Abort_def AddErr_def job_u1_def Begin_def job_empty_def)

text \<open>
  C5 as stated fails: without continue-on-error, an object-not-found during the
  iteration of an explicit list neither aborts the job nor reaches its error sink.
\<close>

theorem not_found_without_flag_counterexample:
  "\<not> ContinueOnError (msg \<lparr>msg = msg_u1, refc = 2\<rparr>) \<and>
   CopyObject store_notfound ''o1'' ''o1'' False False = Some ErrObjNotExist \<and>
   \<not> aborted (tcowi_do store_notfound \<lparr>msg = msg_u1, refc = 2\<rparr> ''o1'' lrpList job_u1) \<and>
   errs (tcowi_do store_notfound \<lparr>msg = msg_u1, refc = 2\<rparr> ''o1'' lrpList job_u1) = []"
  by (simp add: tcowi_do_def Let_def store_notfound_def store_ok_def IsObjNotExist_def
      msg_u1_def job_u1_def Begin_def job_empty_def ToName_def)

text \<open>
  C6 at its failing input: a job that ends with an error, on a target that knows the
  destination bucket the job created. The end of \<open>Run\<close> clears the pending map and leaves
  the buckets as they were: the destination is not destroyed.
\<close>

theorem run_fin_keeps_destination:
  "Err (xctn node_failed) = Some (ErrOther ''put failed'') \<and>
   buckets (Run_fin node_failed) = [''src'', ''dst''] \<and>
   pending_m (xctn (Run_fin node_failed)) = Map.empty"
  by (simp add: Run_fin_def Let_def node_failed_def Err_def fin_def)

subsection \<open>S3 gateway\<close>

text \<open>
  C2, as amended. For a multi-object delete (\<open>DELETE\<close> with \<open>?delete\<close>, or \<open>POST\<close> with
  \<open>?delete\<close> and no multipart parameter) on a bucket of the BMD that permits object
  deletion, whose body decodes to a non-empty list of keys that the JSON round trip of
  the list-range message preserves: the gateway invokes the list-range delete primitive
  once with the bucket and these keys. When the primitive reports no error the reply is
  a 200 whose body is one \<open>DeleteResult\<close> with exactly one entry per requested key, in
  order. When it reports an error the reply has the status of a request error (400)
  and begins with that error's document.
\<close>

theorem multi_delete_lists_every_key:
  "InitByNameOnly bucket (bmd p) = Inr bck \<and> Allow bck AceObjDELETE = None \<and>
   xmlDecodeDelete be (ReqBody req) = Inr objList \<and> Object objList \<noteq> [] \<and>
   jsonUnmarshal be (map Key (Object objList)) = Inr (map Key (Object objList)) \<longrightarrow>
   (has q ''delete'' \<longrightarrow> s3Handler DELETE [bucket] q = Call_delMultipleObjs bucket) \<and>
   (has q ''delete'' \<and> \<not> has q ''uploadId'' \<and> \<not> has q ''uploads'' \<longrightarrow>
      s3Handler POST [bucket] q = Call_delMultipleObjs bucket) \<and>
   (case delMultipleObjs be req bucket (p, w0) of
      (p', w') \<Rightarrow>
        lrCalls p' = lrCalls p @ [(''DELETE'', bucket, map Key (Object objList))] \<and>
        (listrange be ''DELETE'' bucket (map Key (Object objList)) = None \<longrightarrow>
           status w' = 200 \<and>
           (\<exists>all. body w' = [DeleteResultDoc all] \<and>
              length (Objs all) = length (Object objList) \<and>
              map DeletedKey (Objs all) = map Key (Object objList))) \<and>
        (listrange be ''DELETE'' bucket (map Key (Object objList)) = Some err \<longrightarrow>
           status w' = 400 \<and> hd (body w') = ErrorDoc err))"
proof (intro impI conjI)
  assume "has q ''delete''"
  then show "s3Handler DELETE [bucket] q = Call_delMultipleObjs bucket"
    by (simp add: s3Handler_def)
next
  assume "has q ''delete'' \<and> \<not> has q ''uploadId'' \<and> \<not> has q ''uploads''"
  then show "s3Handler POST [bucket] q = Call_delMultipleObjs bucket"
    by (simp add: s3Handler_def)
next
  assume a: "InitByNameOnly bucket (bmd p) = Inr bck \<and> Allow bck AceObjDELETE = None \<and>
   xmlDecodeDelete be (ReqBody req) = Inr objList \<and> Object objList \<noteq> [] \<and>
   jsonUnmarshal be (map Key (Object objList)) = Inr (map Key (Object objList))"
  let ?names = "map Key (Object objList)"
  let ?all = "\<lparr>Objs = map (\<lambda>name. \<lparr>DeletedKey = name\<rparr>) ?names\<rparr>"
  let ?w1 = "case listrange be ''DELETE'' bucket ?names of
               Some err \<Rightarrow> WriteErr err 0 w0 | None \<Rightarrow> w0"
  let ?w = "Write (DeleteResultDoc ?all) (Header_Set ''Content-Type'' ''application/xml'' ?w1)"
  have eq: "delMultipleObjs be req bucket (p, w0) =
     (p\<lparr>lrCalls := lrCalls p @ [(''DELETE'', bucket, ?names)]\<rparr>, ?w)"
    using a by (simp add: delMultipleObjs_def Let_def)
  have k: "map DeletedKey (Objs ?all) = ?names"
    by (simp add: comp_def)
  have ok: "listrange be ''DELETE'' bucket ?names = None \<Longrightarrow>
      status ?w = 200 \<and> body ?w = [DeleteResultDoc ?all]"
    by (simp add: Write_def WriteHeader_def Header_Set_def w0_def status_def)
  have ko: "listrange be ''DELETE'' bucket ?names = Some err \<Longrightarrow>
      status ?w = 400 \<and> hd (body ?w) = ErrorDoc err"
    by (simp add: WriteErr_def Write_def WriteHeader_def Header_Set_def w0_def status_def)
  have ex: "listrange be ''DELETE'' bucket ?names = None \<Longrightarrow>
      \<exists>all. body ?w = [DeleteResultDoc all] \<and>
        length (Objs all) = length (Object objList) \<and>
        map DeletedKey (Objs all) = ?names"
    using ok k by (intro exI[of _ ?all]) simp
  show "case delMultipleObjs be req bucket (p, w0) of
      (p', w') \<Rightarrow>
        lrCalls p' = lrCalls p @ [(''DELETE'', bucket, map Key (Object objList))] \<and>
        (listrange be ''DELETE'' bucket (map Key (Object objList)) = None \<longrightarrow>
           status w' = 200 \<and>
           (\<exists>all. body w' = [DeleteResultDoc all] \<and>
              length (Objs all) = length (Object objList) \<and>
              map DeletedKey (Objs all) = map Key (Object objList))) \<and>
        (listrange be ''DELETE'' bucket (map Key (Object objList)) = Some err \<longrightarrow>
           status w' = 400 \<and> hd (body w') = ErrorDoc err)"
    unfolding eq using ok ko ex by (simp only: prod.case) simp
qed

theorem multi_delete_lists_every_key_witness:
  "s3Handler DELETE [''b1''] [(''delete'', [])] = Call_delMultipleObjs ''b1'' \<and>
   s3Handler POST [''b1''] [(''delete'', [])] = Call_delMultipleObjs ''b1'' \<and>
   (case delMultipleObjs be_ok req_delete ''b1'' (proxy_b1, w0) of
      (p', w') \<Rightarrow>
        lrCalls p' = [(''DELETE'', ''b1'', [''k1'', ''k2'', ''k3''])] \<and>
        status w' = 200 \<and>
        (\<exists>all. body w' = [DeleteResultDoc all] \<and>
           map DeletedKey (Objs all) = [''k1'', ''k2'', ''k3''])) \<and>
   (case delMultipleObjs be_lrfail req_delete ''b1'' (proxy_b1, w0) of
      (p', w') \<Rightarrow>
        lrCalls p' = [(''DELETE'', ''b1'', [''k1'', ''k2'', ''k3''])] \<and>
        status w' = 400 \<and> hd (body w') = ErrorDoc (ErrOther ''delete failed''))"
  using multi_delete_lists_every_key [of "''b1''" proxy_b1 bck_b1 be_ok req_delete
      "\<lparr>Object = [\<lparr>Key = ''k1''\<rparr>, \<lparr>Key = ''k2''\<rparr>, \<lparr>Key = ''k3''\<rparr>]\<rparr>" "[(''delete'', [])]"
      "ErrOther ''delete failed''"]
    multi_delete_lists_every_key [of "''b1''" proxy_b1 bck_b1 be_lrfail req_delete
      "\<lparr>Object = [\<lparr>Key = ''k1''\<rparr>, \<lparr>Key = ''k2''\<rparr>, \<lparr>Key = ''k3''\<rparr>]\<rparr>" "[(''delete'', [])]"
      "ErrOther ''delete failed''"]
  by (auto simp: InitByNameOnly_def proxy_b1_def bck_b1_def Allow_def be_ok_def be_lrfail_def
      req_delete_def has_def split: prod.splits)

text \<open>
  C2 as stated fails: when the list-range primitive reports an error, the reply to a
  request listing \<open>k1\<close>, \<open>k2\<close>, \<open>k3\<close> is a 400 that begins with the error's document; it
  is not a \<open>DeleteResult\<close> listing the keys as deleted.
\<close>

theorem multi_delete_error_counterexample:
  "xmlDecodeDelete be_lrfail (ReqBody req_delete) =
     Inr \<lparr>Object = [\<lparr>Key = ''k1''\<rparr>, \<lparr>Key = ''k2''\<rparr>, \<lparr>Key = ''k3''\<rparr>]\<rparr> \<and>
   status (snd (delMultipleObjs be_lrfail req_delete ''b1'' (proxy_b1, w0))) = 400 \<and>
   hd (body (snd (delMultipleObjs be_lrfail req_delete ''b1'' (proxy_b1, w0)))) =
     ErrorDoc (ErrOther ''delete failed'') \<and>
   body (snd (delMultipleObjs be_lrfail req_delete ''b1'' (proxy_b1, w0))) \<noteq>
     [DeleteResultDoc \<lparr>Objs = [\<lparr>DeletedKey = ''k1''\<rparr>, \<lparr>DeletedKey = ''k2''\<rparr>,
        \<lparr>DeletedKey = ''k3''\<rparr>]\<rparr>]"
  by (simp add: delMultipleObjs_def InitByNameOnly_def proxy_b1_def bck_b1_def Allow_def
      be_ok_def be_lrfail_def req_delete_def WriteErr_def Write_def WriteHeader_def
      Header_Set_def w0_def status_def Let_def)

text \<open>
  C7, as amended. On the primary, \<open>DELETE\<close> of a bucket of the BMD that permits its
  destruction answers 200 with an empty body when the destroy path succeeds or reports
  \<open>ErrBucketAlreadyExists\<close>. After a destroy that succeeded, a second \<open>DELETE\<close> of the
  same name answers 404 with the bucket-not-found error.
\<close>

theorem delete_bucket_twice:
  "(InitByNameOnly bucket (bmd p) = Inr bck \<and> Allow bck AceDestroyBucket = None \<and> isPrimary p \<and>
      (destroyRes be bck = None \<or> destroyRes be bck = Some ErrBucketAlreadyExists) \<longrightarrow>
        status (snd (delBckS3 be bucket (p, w0))) = 200 \<and>
        body (snd (delBckS3 be bucket (p, w0))) = [])
   \<and> (InitByNameOnly bucket (bmd p) = Inr bck \<and> Allow bck AceDestroyBucket = None \<and> isPrimary p \<and>
      destroyRes be bck = None \<longrightarrow>
        status (snd (delBckS3 be bucket (fst (delBckS3 be bucket (p, w0)), w0))) = 404 \<and>
        body (snd (delBckS3 be bucket (fst (delBckS3 be bucket (p, w0)), w0))) =
          [ErrorDoc ErrBckNotFound])"
proof (intro conjI impI)
  assume a: "InitByNameOnly bucket (bmd p) = Inr bck \<and> Allow bck AceDestroyBucket = None \<and> isPrimary p \<and>
      (destroyRes be bck = None \<or> destroyRes be bck = Some ErrBucketAlreadyExists)"
  then have "snd (delBckS3 be bucket (p, w0)) = w0"
    by (auto simp: delBckS3_def forwardCP_def destroyBucket_def)
  then show "status (snd (delBckS3 be bucket (p, w0))) = 200"
    and "body (snd (delBckS3 be bucket (p, w0))) = []"
    by (simp_all add: status_w0)
next
  assume a: "InitByNameOnly bucket (bmd p) = Inr bck \<and> Allow bck AceDestroyBucket = None \<and> isPrimary p \<and>
      destroyRes be bck = None"
  let ?bmd' = "filter (\<lambda>b. \<not> (Provider b = Provider bck \<and> Name b = Name bck)) (bmd p)"
  have gone: "InitByNameOnly bucket ?bmd' = Inl (ErrBckNotFound, 404)"
    by (rule InitByNameOnly_gone) (use a in simp)
  have first: "fst (delBckS3 be bucket (p, w0)) = p\<lparr>bmd := ?bmd'\<rparr>"
    using a by (simp add: delBckS3_def forwardCP_def destroyBucket_def)
  have second: "snd (delBckS3 be bucket (p\<lparr>bmd := ?bmd'\<rparr>, w0)) = WriteErr ErrBckNotFound 404 w0"
    using gone by (simp add: delBckS3_def)
  show "status (snd (delBckS3 be bucket (fst (delBckS3 be bucket (p, w0)), w0))) = 404"
    unfolding first second by (simp add: WriteErr_def Write_def WriteHeader_def w0_def status_def)
  show "body (snd (delBckS3 be bucket (fst (delBckS3 be bucket (p, w0)), w0))) =
          [ErrorDoc ErrBckNotFound]"
    unfolding first second by (simp add: WriteErr_def Write_def WriteHeader_def w0_def)
qed

theorem delete_bucket_twice_witness:
  "status (snd (delBckS3 be_ok ''b1'' (proxy_b1, w0))) = 200 \<and>
   body (snd (delBckS3 be_ok ''b1'' (proxy_b1, w0))) = [] \<and>
   status (snd (delBckS3 be_ok ''b1'' (fst (delBckS3 be_ok ''b1'' (proxy_b1, w0)), w0))) = 404 \<and>
   body (snd (delBckS3 be_ok ''b1'' (fst (delBckS3 be_ok ''b1'' (proxy_b1, w0)), w0))) =
     [ErrorDoc ErrBckNotFound]"
  using delete_bucket_twice [of "''b1''" proxy_b1 bck_b1 be_ok]
  by (simp add: InitByNameOnly_def proxy_b1_def bck_b1_def Allow_def be_ok_def)

text \<open>
  C7 as stated fails: on the primary, with bucket \<open>b1\<close> in the BMD and a destroy path
  that succeeds, the first \<open>DELETE\<close> answers 200 and the second does not.
\<close>

theorem delete_bucket_twice_counterexample:
  "InitByNameOnly ''b1'' (bmd proxy_b1) = Inr bck_b1 \<and>
   status (snd (delBckS3 be_ok ''b1'' (proxy_b1, w0))) = 200 \<and>
   status (snd (delBckS3 be_ok ''b1'' (fst (delBckS3 be_ok ''b1'' (proxy_b1, w0)), w0))) \<noteq> 200"
  by (simp add: delBckS3_def InitByNameOnly_def proxy_b1_def bck_b1_def Allow_def be_ok_def
      forwardCP_def destroyBucket_def WriteErr_def Write_def WriteHeader_def w0_def status_def)

text \<open>
  C8. Listing multipart uploads: with exactly one active target the reply is a 307 whose
  location is that target; with more than one it is a 200 with one
  \<open>ListMptUploadsResult\<close> whose \<open>Uploads\<close> are the per-target upload entries, concatenated
  in the order the targets of the map are visited.
\<close>

theorem list_multipart_redirect_or_aggregate:
  "(CountActiveTs (smap p) = 1 \<longrightarrow>
      (\<exists>si. filter (\<lambda>t. \<not> maint t) (Tmap (smap p)) = [si] \<and>
         listMultipart be req bck q p w0 =
           s3Redirect si (redirectURL req si ''intra-control'') (Name bck) w0 \<and>
         status (listMultipart be req bck q p w0) = 307 \<and>
         map_of (hdrs (listMultipart be req bck q p w0)) ''Location'' =
           Some (redirectURL req si ''intra-control'')))
   \<and> (CountActiveTs (smap p) > 1 \<longrightarrow>
      (\<exists>all. status (listMultipart be req bck q p w0) = 200 \<and>
         body (listMultipart be req bck q p w0) = [ListMptUploadsDoc all] \<and>
         Uploads all = concat (map (targetUploads be req q) (Tmap (smap p)))))"
proof (intro conjI impI)
  assume one: "CountActiveTs (smap p) = 1"
  then obtain si where si: "filter (\<lambda>t. \<not> maint t) (Tmap (smap p)) = [si]"
    using length_filter_one by (auto simp: CountActiveTs_def)
  have h: "HrwName2T be (smap p) (MakeUname bck []) = Inr si"
    by (simp add: HrwName2T_def si)
  have eq: "listMultipart be req bck q p w0 =
           s3Redirect si (redirectURL req si ''intra-control'') (Name bck) w0"
    using one by (simp add: listMultipart_def h)
  have st: "status (s3Redirect si (redirectURL req si ''intra-control'') (Name bck) w0) = 307"
    by (simp add: s3Redirect_def Write_def WriteHeader_def Header_Set_def w0_def status_def)
  have loc: "map_of (hdrs (s3Redirect si (redirectURL req si ''intra-control'') (Name bck) w0)) ''Location'' =
           Some (redirectURL req si ''intra-control'')"
    by (simp add: s3Redirect_def Write_def WriteHeader_def Header_Set_def w0_def)
  from si eq st loc
  show "\<exists>si. filter (\<lambda>t. \<not> maint t) (Tmap (smap p)) = [si] \<and>
         listMultipart be req bck q p w0 =
           s3Redirect si (redirectURL req si ''intra-control'') (Name bck) w0 \<and>
         status (listMultipart be req bck q p w0) = 307 \<and>
         map_of (hdrs (listMultipart be req bck q p w0)) ''Location'' =
           Some (redirectURL req si ''intra-control'')"
    by simp
next
  assume many: "CountActiveTs (smap p) > 1"
  let ?all = "fold (mptAdd be req q) (Tmap (smap p)) \<lparr>MptBucket = [], Uploads = []\<rparr>"
  have eq: "listMultipart be req bck q p w0 =
      Write (ListMptUploadsDoc ?all) (Header_Set ''Content-Type'' ''application/xml'' w0)"
    using many by (simp add: listMultipart_def Let_def)
  have "status (listMultipart be req bck q p w0) = 200"
    unfolding eq by (simp add: Write_def WriteHeader_def Header_Set_def w0_def status_def)
  moreover have "body (listMultipart be req bck q p w0) = [ListMptUploadsDoc ?all]"
    unfolding eq by (simp add: Write_def WriteHeader_def Header_Set_def w0_def)
  moreover have "Uploads ?all = concat (map (targetUploads be req q) (Tmap (smap p)))"
    by (simp add: fold_mptAdd_Uploads)
  ultimately show "\<exists>all. status (listMultipart be req bck q p w0) = 200 \<and>
         body (listMultipart be req bck q p w0) = [ListMptUploadsDoc all] \<and>
         Uploads all = concat (map (targetUploads be req q) (Tmap (smap p)))"
    by blast
qed

theorem list_multipart_redirect_or_aggregate_witness:
  "status (listMultipart be_ok req_delete bck_b1 [(''uploads'', [])]
      (proxy_b1\<lparr>smap := smap_one\<rparr>) w0) = 307 \<and>
   map_of (hdrs (listMultipart be_ok req_delete bck_b1 [(''uploads'', [])]
      (proxy_b1\<lparr>smap := smap_one\<rparr>) w0)) ''Location'' =
     Some (redirectURL req_delete node_t2 ''intra-control'') \<and>
   status (listMultipart be_ok req_delete bck_b1 [(''uploads'', [])] proxy_b1 w0) = 200 \<and>
   (\<exists>all. body (listMultipart be_ok req_delete bck_b1 [(''uploads'', [])] proxy_b1 w0) =
        [ListMptUploadsDoc all] \<and>
      map UploadKey (Uploads all) = [''t1'', ''t2'', ''t3''])"
  using list_multipart_redirect_or_aggregate [of "proxy_b1\<lparr>smap := smap_one\<rparr>" be_ok req_delete
      bck_b1 "[(''uploads'', [])]"]
    list_multipart_redirect_or_aggregate [of proxy_b1 be_ok req_delete bck_b1 "[(''uploads'', [])]"]
  by (auto simp: CountActiveTs_def proxy_b1_def smap_one_def smap_three_def node_t1_def
      node_t2_def node_t3_def node_t4_def targetUploads_def be_ok_def)

text \<open>
  C9, as amended. A multi-object delete on a bucket of the BMD that permits object
  deletion, whose body decodes to an empty list of keys, writes nothing: the reply is a
  200 with an empty body, and the gateway's state (its list-range invocations included)
  is unchanged.
\<close>

theorem empty_multi_delete_writes_nothing:
  "InitByNameOnly bucket (bmd p) = Inr bck \<and> Allow bck AceObjDELETE = None \<and>
   xmlDecodeDelete be (ReqBody req) = Inr objList \<and> Object objList = [] \<longrightarrow>
   delMultipleObjs be req bucket (p, w0) = (p, w0) \<and> status w0 = 200 \<and> body w0 = []"
  by (simp add: delMultipleObjs_def status_w0)

theorem empty_multi_delete_writes_nothing_witness:
  "delMultipleObjs be_ok req_empty ''b1'' (proxy_b1, w0) = (proxy_b1, w0) \<and>
   status w0 = 200 \<and> body w0 = []"
  using empty_multi_delete_writes_nothing [of "''b1''" proxy_b1 bck_b1 be_ok req_empty
      "\<lparr>Object = []\<rparr>"]
  by (simp add: InitByNameOnly_def proxy_b1_def bck_b1_def Allow_def be_ok_def req_empty_def)

text \<open>
  C9 as stated fails: for a body that decodes to an empty list of keys the reply's body
  is not a \<open>DeleteResult\<close> without entries; nothing is written at all.
\<close>

theorem empty_multi_delete_counterexample:
  "xmlDecodeDelete be_ok (ReqBody req_empty) = Inr \<lparr>Object = []\<rparr> \<and>
   body (snd (delMultipleObjs be_ok req_empty ''b1'' (proxy_b1, w0))) \<noteq>
     [DeleteResultDoc \<lparr>Objs = []\<rparr>] \<and>
   body (snd (delMultipleObjs be_ok req_empty ''b1'' (proxy_b1, w0))) = []"
  by (simp add: delMultipleObjs_def InitByNameOnly_def proxy_b1_def bck_b1_def Allow_def
      be_ok_def req_empty_def w0_def)

text \<open>
  C10. A \<open>GET\<close> with at least one path item whose query has \<open>lifecycle\<close>, \<open>policy\<close>,
  \<open>cors\<close> or \<open>acl\<close> is dispatched to \<open>unsupported\<close> with the first item, however many
  items the path has. The reply is 501 with an empty body when the lookup validates the
  first item as a bucket, and otherwise the lookup's error with its status: 404 with the
  bucket-not-found error when no bucket of the BMD has that name. It is never a 307 and
  carries no location.
\<close>

theorem unsupported_subresource_501:
  "apiItems \<noteq> [] \<and>
   (has q ''lifecycle'' \<or> has q ''policy'' \<or> has q ''cors'' \<or> has q ''acl'') \<longrightarrow>
     s3Handler GET apiItems q = Call_unsupported (hd apiItems) \<and>
     (InitByNameOnly (hd apiItems) (bmd p) = Inr bck \<longrightarrow>
        status (unsupported p (hd apiItems) w0) = 501 \<and>
        body (unsupported p (hd apiItems) w0) = []) \<and>
     (hd apiItems \<notin> Name ` set (bmd p) \<longrightarrow>
        status (unsupported p (hd apiItems) w0) = 404 \<and>
        body (unsupported p (hd apiItems) w0) = [ErrorDoc ErrBckNotFound]) \<and>
     (InitByNameOnly (hd apiItems) (bmd p) = Inl (err, c) \<longrightarrow>
        status (unsupported p (hd apiItems) w0) = (if c = 0 then 400 else c) \<and>
        body (unsupported p (hd apiItems) w0) = [ErrorDoc err]) \<and>
     status (unsupported p (hd apiItems) w0) \<noteq> 307 \<and>
     map_of (hdrs (unsupported p (hd apiItems) w0)) ''Location'' = None"
proof (intro impI)
  assume a: "apiItems \<noteq> [] \<and>
   (has q ''lifecycle'' \<or> has q ''policy'' \<or> has q ''cors'' \<or> has q ''acl'')"
  then have nz: "length apiItems \<noteq> 0"
    and sub: "has q ''lifecycle'' \<or> has q ''policy'' \<or> has q ''cors'' \<or> has q ''acl''"
    by simp_all
  have hd0: "apiItems ! 0 = hd apiItems" using a by (simp add: hd_conv_nth)
  have d: "s3Handler GET apiItems q = Call_unsupported (hd apiItems)"
    using nz sub hd0 by (simp add: s3Handler_def)
  let ?w = "unsupported p (hd apiItems) w0"
  have ok: "status ?w = 501 \<and> body ?w = []"
    if "InitByNameOnly (hd apiItems) (bmd p) = Inr b" for b
    using that by (simp add: unsupported_def WriteHeader_def w0_def status_def)
  have ko: "status ?w = (if c' = 0 then 400 else c') \<and> body ?w = [ErrorDoc e]"
    if "InitByNameOnly (hd apiItems) (bmd p) = Inl (e, c')" for e c'
    using that
    by (simp add: unsupported_def WriteErr_def Write_def WriteHeader_def w0_def status_def)
  have unknown: "status ?w = 404 \<and> body ?w = [ErrorDoc ErrBckNotFound]"
    if "hd apiItems \<notin> Name ` set (bmd p)"
    using ko [OF InitByNameOnly_unknown [OF that]] by simp
  have loc: "map_of (hdrs ?w) ''Location'' = None"
    by (simp add: unsupported_def WriteErr_def Write_def WriteHeader_def w0_def
        split: sum.splits prod.splits)
  have no307: "status ?w \<noteq> 307"
  proof (cases "InitByNameOnly (hd apiItems) (bmd p)")
    case (Inl ec)
    obtain e c' where ec: "ec = (e, c')" by (cases ec)
    from Inl ec have l: "InitByNameOnly (hd apiItems) (bmd p) = Inl (e, c')" by simp
    from InitByNameOnly_Inl [OF l] ko [OF l] show ?thesis by auto
  next
    case (Inr b)
    from ok [OF Inr] show ?thesis by simp
  qed
  show "s3Handler GET apiItems q = Call_unsupported (hd apiItems) \<and>
     (InitByNameOnly (hd apiItems) (bmd p) = Inr bck \<longrightarrow>
        status (unsupported p (hd apiItems) w0) = 501 \<and>
        body (unsupported p (hd apiItems) w0) = []) \<and>
     (hd apiItems \<notin> Name ` set (bmd p) \<longrightarrow>
        status (unsupported p (hd apiItems) w0) = 404 \<and>
        body (unsupported p (hd apiItems) w0) = [ErrorDoc ErrBckNotFound]) \<and>
     (InitByNameOnly (hd apiItems) (bmd p) = Inl (err, c) \<longrightarrow>
        status (unsupported p (hd apiItems) w0) = (if c = 0 then 400 else c) \<and>
        body (unsupported p (hd apiItems) w0) = [ErrorDoc err]) \<and>
     status (unsupported p (hd apiItems) w0) \<noteq> 307 \<and>
     map_of (hdrs (unsupported p (hd apiItems) w0)) ''Location'' = None"
    using d ok ko unknown loc no307 by blast
qed

theorem unsupported_subresource_501_witness:
  "s3Handler GET [''b1'', ''dir'', ''obj''] [(''acl'', [])] = Call_unsupported ''b1'' \<and>
   status (unsupported proxy_b1 ''b1'' w0) = 501 \<and>
   body (unsupported proxy_b1 ''b1'' w0) = [] \<and>
   s3Handler GET [''nosuch''] [(''lifecycle'', [])] = Call_unsupported ''nosuch'' \<and>
   status (unsupported proxy_b1 ''nosuch'' w0) = 404 \<and>
   status (unsupported (proxy_b1\<lparr>bmd := [bck_b1, bck_b1_aws]\<rparr>) ''b1'' w0) = 400 \<and>
   body (unsupported (proxy_b1\<lparr>bmd := [bck_b1, bck_b1_aws]\<rparr>) ''b1'' w0) =
     [ErrorDoc ErrAmbiguousProvider]"
  using unsupported_subresource_501 [of "[''b1'', ''dir'', ''obj'']" "[(''acl'', [])]" proxy_b1
      bck_b1 ErrBckNotFound 404]
    unsupported_subresource_501 [of "[''nosuch'']" "[(''lifecycle'', [])]" proxy_b1
      bck_b1 ErrBckNotFound 404]
    unsupported_subresource_501 [of "[''b1'']" "[(''acl'', [])]"
      "proxy_b1\<lparr>bmd := [bck_b1, bck_b1_aws]\<rparr>" bck_b1 ErrAmbiguousProvider 0]
  by (simp add: has_def InitByNameOnly_def proxy_b1_def bck_b1_def bck_b1_aws_def)

end
